theory Spec2Isabelle
  imports Main "HOL-Library.Multiset"
begin

section \<open>Data model\<close>

text \<open>
  The views of \<^verbatim>\<open>backend/api/views.py\<close> work on two tables, users and notes, through
  the object-relational mapper. A principal is the \<^verbatim>\<open>request.user\<close> object; a note
  carries its author as an object (\<^verbatim>\<open>note.author.username\<close>), so the record of a note
  holds the author's record. No view changes or removes a user row, hence the copy and the
  row never come apart.
\<close>

record User =
  user_id :: nat
  username :: string
  password :: string
  is_staff :: bool
  is_superuser :: bool

record Note =
  note_id :: nat
  title :: string
  content :: string
  author :: User
  created_at :: int

text \<open>
  The store: both tables in insertion order, the two primary-key sequences, and whether the
  store is reachable. When \<open>outage\<close> is \<open>Some m\<close> every query raises an exception whose
  text is \<open>m\<close>; this is the source of the "unexpected" exceptions the views catch.
\<close>

record db =
  db_users :: "User list"
  db_notes :: "Note list"
  next_user_id :: nat
  next_note_id :: nat
  outage :: "string option"

datatype exn =
    Http404 string
  | Note_DoesNotExist string
  | OperationalError string

fun str :: "exn \<Rightarrow> string" where
  "str (Http404 m) = m"
| "str (Note_DoesNotExist m) = m"
| "str (OperationalError m) = m"

subsection \<open>Query sets\<close>

text \<open>
  A query set is a description of a query; the store is asked only when the rows are
  needed. \<^verbatim>\<open>Note.objects.none()\<close> never asks the store.
\<close>

datatype queryset =
    Note_objects_all
  | Note_objects_none
  | order_by_created_at_desc queryset

fun is_none :: "queryset \<Rightarrow> bool" where
  "is_none Note_objects_all = False"
| "is_none Note_objects_none = True"
| "is_none (order_by_created_at_desc q) = is_none q"

fun rows :: "db \<Rightarrow> queryset \<Rightarrow> Note list" where
  "rows d Note_objects_all = db_notes d"
| "rows d Note_objects_none = []"
| "rows d (order_by_created_at_desc q) = sort_key (\<lambda>n. - created_at n) (rows d q)"

definition fetch :: "db \<Rightarrow> queryset \<Rightarrow> exn + Note list" where
  "fetch d q =
     (if is_none q then Inr []
      else case outage d of
             Some m \<Rightarrow> Inl (OperationalError m)
           | None \<Rightarrow> Inr (rows d q))"

text \<open>
  \<^verbatim>\<open>GenericAPIView.get_object\<close> of the framework, with the primary key of the URL:
  it filters the view's query set by \<^verbatim>\<open>pk\<close> and goes through
  \<^verbatim>\<open>get_object_or_404\<close>, which turns the model's \<^verbatim>\<open>DoesNotExist\<close> into
  \<^verbatim>\<open>Http404\<close>. The caller therefore never sees \<^verbatim>\<open>Note.DoesNotExist\<close>.
\<close>

definition get_object :: "db \<Rightarrow> queryset \<Rightarrow> nat \<Rightarrow> exn + Note" where
  "get_object d q pk =
     (case fetch d q of
        Inl e \<Rightarrow> Inl e
      | Inr ns \<Rightarrow>
          (case find (\<lambda>n. note_id n = pk) ns of
             None \<Rightarrow> Inl (Http404 ''No Note matches the given query.'')
           | Some n \<Rightarrow> Inr n))"

text \<open>\<^verbatim>\<open>instance.delete()\<close>: one \<^verbatim>\<open>DELETE\<close> by primary key.\<close>

definition delete_instance :: "db \<Rightarrow> Note \<Rightarrow> exn + db" where
  "delete_instance d inst =
     (case outage d of
        Some m \<Rightarrow> Inl (OperationalError m)
      | None \<Rightarrow> Inr (d\<lparr>db_notes := filter (\<lambda>n. note_id n \<noteq> note_id inst) (db_notes d)\<rparr>))"

subsection \<open>Requests and responses\<close>

record note_payload =
  payload_title :: string
  payload_content :: string

record registration =
  reg_username :: string
  reg_password :: string

record note_json =
  json_id :: nat
  json_title :: string
  json_content :: string
  author_username :: string
  author_id :: nat
  json_created_at :: int

record note_info =
  info_id :: nat
  info_title :: string
  info_author :: string

record user_data =
  data_id :: nat
  data_username :: string
  is_admin :: bool
  data_is_staff :: bool
  data_is_superuser :: bool

datatype payload =
    Notes "note_json list"
  | Created_note note_json
  | Deleted_note note_info
  | Current_user user_data
  | Registered_user nat string

type_synonym error_map = "(string \<times> string list) list"

text \<open>
  The body of a \<^verbatim>\<open>Response\<close> is a dictionary with the keys \<^verbatim>\<open>status\<close> and
  \<^verbatim>\<open>message\<close> and, in some answers, \<^verbatim>\<open>data\<close> or \<^verbatim>\<open>errors\<close>; an absent key
  is \<open>None\<close>.
\<close>

record response =
  http_status :: nat
  status :: string
  message :: string
  data :: "payload option"
  errors :: "error_map option"

definition apostrophe :: char where
  "apostrophe = CHR 0x27"


subsection \<open>Serializers\<close>

text \<open>
  Modelled from the spec: \<^verbatim>\<open>NoteSerializer\<close> (\<^verbatim>\<open>backend/api/serializers.py\<close> is not
  among the sources). Its validation accepts a title that is non-empty and at most 100
  characters long and a content that is non-empty, and reports the failures per field.
\<close>

definition NoteSerializer_errors :: "note_payload \<Rightarrow> error_map" where
  "NoteSerializer_errors p =
     (if payload_title p = [] then [(''title'', [''This field may not be blank.''])]
      else if 100 < length (payload_title p)
        then [(''title'', [''Ensure this field has no more than 100 characters.''])]
      else []) @
     (if payload_content p = [] then [(''content'', [''This field may not be blank.''])]
      else [])"

definition NoteSerializer_is_valid :: "note_payload \<Rightarrow> bool" where
  "NoteSerializer_is_valid p = (NoteSerializer_errors p = [])"

text \<open>
  Modelled from the spec: the serialized form of a note exposes \<^verbatim>\<open>id\<close>, \<^verbatim>\<open>title\<close>,
  \<^verbatim>\<open>content\<close>, \<^verbatim>\<open>author_username\<close>, \<^verbatim>\<open>author_id\<close> and \<^verbatim>\<open>created_at\<close>; the two
  author fields are read through the author relation
  (\<^verbatim>\<open>test_note_serialization\<close> in \<^verbatim>\<open>backend/api/tests.py\<close> checks the same).
\<close>

definition NoteSerializer_data :: "Note \<Rightarrow> note_json" where
  "NoteSerializer_data n =
     \<lparr>json_id = note_id n, json_title = title n, json_content = content n,
      author_username = username (author n), author_id = user_id (author n),
      json_created_at = created_at n\<rparr>"

text \<open>
  Modelled from the spec: \<^verbatim>\<open>serializer.save(author=request.user)\<close> inserts one row with
  the validated title and content, the given author, a fresh primary key and the creation
  time \<open>now\<close> assigned by the server.
\<close>

definition NoteSerializer_save :: "db \<Rightarrow> note_payload \<Rightarrow> User \<Rightarrow> int \<Rightarrow> exn + Note \<times> db" where
  "NoteSerializer_save d p u now =
     (case outage d of
        Some m \<Rightarrow> Inl (OperationalError m)
      | None \<Rightarrow>
          (let n = \<lparr>note_id = next_note_id d, title = payload_title p,
                    content = payload_content p, author = u, created_at = now\<rparr>
           in Inr (n, d\<lparr>db_notes := db_notes d @ [n], next_note_id := Suc (next_note_id d)\<rparr>)))"

text \<open>
  Modelled from the spec: \<^verbatim>\<open>UserSerializer\<close> (not among the sources). A username is
  required, non-blank and unique; uniqueness is a query against the user table.
\<close>

definition UserSerializer_errors :: "db \<Rightarrow> registration \<Rightarrow> exn + error_map" where
  "UserSerializer_errors d r =
     (if reg_username r = [] then Inr [(''username'', [''This field may not be blank.''])]
      else case outage d of
             Some m \<Rightarrow> Inl (OperationalError m)
           | None \<Rightarrow>
               Inr (if reg_username r \<in> set (map username (db_users d))
                    then [(''username'', [''A user with that username already exists.''])]
                    else []))"

text \<open>
  Modelled from the spec: saving a registration creates a principal without elevated
  privileges under a fresh primary key.
\<close>

definition UserSerializer_save :: "db \<Rightarrow> registration \<Rightarrow> exn + User \<times> db" where
  "UserSerializer_save d r =
     (case outage d of
        Some m \<Rightarrow> Inl (OperationalError m)
      | None \<Rightarrow>
          (let u = \<lparr>user_id = next_user_id d, username = reg_username r,
                    password = reg_password r, is_staff = False, is_superuser = False\<rparr>
           in Inr (u, d\<lparr>db_users := db_users d @ [u], next_user_id := Suc (next_user_id d)\<rparr>)))"

section \<open>The views\<close>

text \<open>
  Every view body is \<^verbatim>\<open>try: ... except Exception as e:\<close>. The \<open>try\<close> block is a
  function into \<open>exn + _\<close>; the handler of the \<open>except\<close> clause answers with status
  500 and the text of the exception, and leaves the store as the request found it. The
  calls to the logging utility write to the log only and are left out.
\<close>

definition internal_server_error :: "exn \<Rightarrow> response" where
  "internal_server_error e =
     \<lparr>http_status = 500, status = ''error'', message = str e, data = None, errors = None\<rparr>"

definition except_Exception :: "(exn \<Rightarrow> 'a) \<Rightarrow> exn + 'a \<Rightarrow> 'a" where
  "except_Exception handler body = (case body of Inl e \<Rightarrow> handler e | Inr r \<Rightarrow> r)"

subsection \<open>\<^verbatim>\<open>NoteListCreate\<close>\<close>

text \<open>
  \<^verbatim>\<open>get_queryset\<close> builds the ordered query set and counts it for the log line, which
  is the first query; an exception there is logged and raised again.
\<close>

definition NoteListCreate_get_queryset :: "db \<Rightarrow> User \<Rightarrow> exn + queryset" where
  "NoteListCreate_get_queryset d u =
     (let queryset = order_by_created_at_desc Note_objects_all
      in case fetch d queryset of
           Inl e \<Rightarrow> Inl e
         | Inr counted \<Rightarrow> Inr queryset)"

definition list_try :: "db \<Rightarrow> User \<Rightarrow> exn + response" where
  "list_try d u =
     (case NoteListCreate_get_queryset d u of
        Inl e \<Rightarrow> Inl e
      | Inr queryset \<Rightarrow>
          (case fetch d queryset of
             Inl e \<Rightarrow> Inl e
           | Inr ns \<Rightarrow>
               Inr \<lparr>http_status = 200, status = ''success'',
                    message = ''Notes retrieved successfully.'',
                    data = Some (Notes (map NoteSerializer_data ns)), errors = None\<rparr>))"

definition NoteListCreate_list :: "db \<Rightarrow> User \<Rightarrow> response" where
  "NoteListCreate_list d u = except_Exception internal_server_error (list_try d u)"

definition create_try :: "db \<Rightarrow> User \<Rightarrow> note_payload \<Rightarrow> int \<Rightarrow> exn + response \<times> db" where
  "create_try d u p now =
     (if NoteSerializer_is_valid p then
        (case NoteSerializer_save d p u now of
           Inl e \<Rightarrow> Inl e
         | Inr (n, d') \<Rightarrow>
             Inr (\<lparr>http_status = 201, status = ''success'',
                   message = ''Note created successfully.'',
                   data = Some (Created_note (NoteSerializer_data n)), errors = None\<rparr>, d'))
      else
        Inr (\<lparr>http_status = 400, status = ''error'', message = ''Invalid data provided.'',
              data = None, errors = Some (NoteSerializer_errors p)\<rparr>, d))"

definition NoteListCreate_create :: "db \<Rightarrow> User \<Rightarrow> note_payload \<Rightarrow> int \<Rightarrow> response \<times> db" where
  "NoteListCreate_create d u p now =
     except_Exception (\<lambda>e. (internal_server_error e, d)) (create_try d u p now)"

subsection \<open>\<^verbatim>\<open>NoteDelete\<close>\<close>

definition NoteDelete_get_queryset :: "User \<Rightarrow> queryset" where
  "NoteDelete_get_queryset u =
     (if is_staff u \<or> is_superuser u then Note_objects_all else Note_objects_none)"

text \<open>
  \<^verbatim>\<open>DestroyModelMixin.destroy\<close> of the framework, reached by \<^verbatim>\<open>super().destroy\<close>:
  it looks the object up once more and deletes it; its own response is dropped by the
  caller.
\<close>

definition super_destroy :: "db \<Rightarrow> User \<Rightarrow> nat \<Rightarrow> exn + db" where
  "super_destroy d u pk =
     (case get_object d (NoteDelete_get_queryset u) pk of
        Inl e \<Rightarrow> Inl e
      | Inr instance \<Rightarrow> delete_instance d instance)"

definition deleted_message :: "note_info \<Rightarrow> string" where
  "deleted_message i =
     ''Note '' @ [apostrophe] @ info_title i @ '','' @ [apostrophe] @ '' by: '' @
     [apostrophe] @ info_author i @ [apostrophe] @ '' has been deleted successfully.''"

text \<open>
  The inner \<^verbatim>\<open>try\<close> of \<^verbatim>\<open>destroy\<close> catches \<^verbatim>\<open>Note.DoesNotExist\<close> only; any other
  exception of the lookup leaves it and reaches the outer handler.
\<close>

definition destroy_try :: "db \<Rightarrow> User \<Rightarrow> nat \<Rightarrow> exn + response \<times> db" where
  "destroy_try d u pk =
     (if \<not> (is_staff u \<or> is_superuser u) then
        Inr (\<lparr>http_status = 403, status = ''error'',
              message = ''Only administrators can delete notes.'',
              data = None, errors = None\<rparr>, d)
      else
        (case get_object d (NoteDelete_get_queryset u) pk of
           Inl e \<Rightarrow>
             (case e of
                Note_DoesNotExist m \<Rightarrow>
                  Inr (\<lparr>http_status = 404, status = ''error'', message = ''Note not found.'',
                        data = None, errors = None\<rparr>, d)
              | Http404 m \<Rightarrow> Inl e
              | OperationalError m \<Rightarrow> Inl e)
         | Inr n \<Rightarrow>
             (let note_info = \<lparr>info_id = note_id n, info_title = title n,
                               info_author = username (author n)\<rparr>
              in case super_destroy d u pk of
                   Inl e \<Rightarrow> Inl e
                 | Inr d' \<Rightarrow>
                     Inr (\<lparr>http_status = 200, status = ''success'',
                           message = deleted_message note_info,
                           data = Some (Deleted_note note_info), errors = None\<rparr>, d'))))"

definition NoteDelete_destroy :: "db \<Rightarrow> User \<Rightarrow> nat \<Rightarrow> response \<times> db" where
  "NoteDelete_destroy d u pk =
     except_Exception (\<lambda>e. (internal_server_error e, d)) (destroy_try d u pk)"

subsection \<open>\<^verbatim>\<open>CreateUserView\<close> and \<^verbatim>\<open>CurrentUserView\<close>\<close>

definition register_try :: "db \<Rightarrow> registration \<Rightarrow> exn + response \<times> db" where
  "register_try d r =
     (case UserSerializer_errors d r of
        Inl e \<Rightarrow> Inl e
      | Inr errs \<Rightarrow>
          if errs = [] then
            (case UserSerializer_save d r of
               Inl e \<Rightarrow> Inl e
             | Inr (u, d') \<Rightarrow>
                 Inr (\<lparr>http_status = 201, status = ''success'',
                       message = ''User registered successfully.'',
                       data = Some (Registered_user (user_id u) (username u)),
                       errors = None\<rparr>, d'))
          else
            Inr (\<lparr>http_status = 400, status = ''error'',
                  message = ''Invalid registration data.'',
                  data = None, errors = Some errs\<rparr>, d))"

definition CreateUserView_create :: "db \<Rightarrow> registration \<Rightarrow> response \<times> db" where
  "CreateUserView_create d r =
     except_Exception (\<lambda>e. (internal_server_error e, d)) (register_try d r)"

definition get_try :: "User \<Rightarrow> exn + response" where
  "get_try u =
     (let user_data = \<lparr>data_id = user_id u, data_username = username u,
                       is_admin = (is_staff u \<or> is_superuser u),
                       data_is_staff = is_staff u, data_is_superuser = is_superuser u\<rparr>
      in Inr \<lparr>http_status = 200, status = ''success'',
              message = ''User information retrieved successfully.'',
              data = Some (Current_user user_data), errors = None\<rparr>)"

definition CurrentUserView_get :: "User \<Rightarrow> response" where
  "CurrentUserView_get u = except_Exception internal_server_error (get_try u)"

subsection \<open>Routing\<close>

text \<open>
  Modelled from the spec: the routing table (\<^verbatim>\<open>backend/api/urls.py\<close> is not among the
  sources) sends \<^verbatim>\<open>GET /notes\<close>, \<^verbatim>\<open>POST /notes\<close>, \<^verbatim>\<open>DELETE /notes/{id}\<close>,
  \<^verbatim>\<open>POST /register\<close> and \<^verbatim>\<open>GET /me\<close> to the five views. A request carries the
  authenticated principal where the route requires one; a create request also carries the
  server's clock reading.
\<close>

datatype request =
    GET_notes User
  | POST_notes User note_payload int
  | DELETE_note User nat
  | POST_register registration
  | GET_me User

fun dispatch :: "db \<Rightarrow> request \<Rightarrow> response \<times> db" where
  "dispatch d (GET_notes u) = (NoteListCreate_list d u, d)"
| "dispatch d (POST_notes u p now) = NoteListCreate_create d u p now"
| "dispatch d (DELETE_note u pk) = NoteDelete_destroy d u pk"
| "dispatch d (POST_register r) = CreateUserView_create d r"
| "dispatch d (GET_me u) = (CurrentUserView_get u, d)"

subsection \<open>Well-formed stores\<close>

text \<open>
  What the database guarantees: primary keys are unique in each table and were drawn from
  the table's sequence.
\<close>

definition wf_db :: "db \<Rightarrow> bool" where
  "wf_db d =
     (distinct (map note_id (db_notes d)) \<and>
      list_all (\<lambda>n. note_id n < next_note_id d) (db_notes d) \<and>
      distinct (map user_id (db_users d)) \<and>
      list_all (\<lambda>u. user_id u < next_user_id d) (db_users d))"

definition empty_db :: db where
  "empty_db = \<lparr>db_users = [], db_notes = [], next_user_id = 1, next_note_id = 1,
                outage = None\<rparr>"

text \<open>The envelope of a response: the shape every view answers in.\<close>

definition envelope_ok :: "response \<Rightarrow> bool" where
  "envelope_ok r =
     ((status r = ''success'' \<or> status r = ''error'') \<and>
      (data r \<noteq> None \<longrightarrow> status r = ''success'') \<and>
      (errors r \<noteq> None \<longrightarrow> status r = ''error'' \<and> http_status r = 400) \<and>
      \<not> (data r \<noteq> None \<and> errors r \<noteq> None))"

section \<open>Sample data\<close>

text \<open>
  The fixture of \<^verbatim>\<open>NoteAPITestCase.setUp\<close> in \<^verbatim>\<open>backend/api/tests.py\<close>: a regular
  user, an administrator and one note of each; further a user who is staff only, and the
  same store while it cannot be reached.
\<close>

definition testuser :: User where
  "testuser = \<lparr>user_id = 1, username = ''testuser'', password = ''testpass123'',
                is_staff = False, is_superuser = False\<rparr>"

definition admin_user :: User where
  "admin_user = \<lparr>user_id = 2, username = ''admin'', password = ''adminpass123'',
                  is_staff = True, is_superuser = True\<rparr>"

definition staff_user :: User where
  "staff_user = \<lparr>user_id = 3, username = ''staff'', password = ''staffpass123'',
                  is_staff = True, is_superuser = False\<rparr>"

definition note1 :: Note where
  "note1 = \<lparr>note_id = 1, title = ''Note 1'', content = ''Content 1'', author = testuser,
             created_at = 10\<rparr>"

definition note2 :: Note where
  "note2 = \<lparr>note_id = 2, title = ''Note 2'', content = ''Content 2'', author = admin_user,
             created_at = 20\<rparr>"

definition fixture :: db where
  "fixture = \<lparr>db_users = [testuser, admin_user], db_notes = [note1, note2],
               next_user_id = 3, next_note_id = 3, outage = None\<rparr>"

definition fixture_down :: db where
  "fixture_down = fixture\<lparr>outage := Some ''connection refused''\<rparr>"

definition new_note :: note_payload where
  "new_note = \<lparr>payload_title = ''New Note'', payload_content = ''New note content''\<rparr>"

definition untitled_note :: note_payload where
  "untitled_note = \<lparr>payload_title = [], payload_content = ''Content''\<rparr>"

definition newuser :: registration where
  "newuser = \<lparr>reg_username = ''newuser'', reg_password = ''newpass123''\<rparr>"

lemmas sample_defs =
  testuser_def admin_user_def staff_user_def note1_def note2_def fixture_def
  fixture_down_def new_note_def untitled_note_def newuser_def

lemmas view_defs =
  NoteListCreate_list_def list_try_def NoteListCreate_get_queryset_def
  NoteListCreate_create_def create_try_def NoteDelete_destroy_def destroy_try_def
  NoteDelete_get_queryset_def super_destroy_def CreateUserView_create_def register_try_def
  CurrentUserView_get_def get_try_def except_Exception_def internal_server_error_def
  get_object_def fetch_def delete_instance_def NoteSerializer_is_valid_def
  NoteSerializer_errors_def NoteSerializer_save_def NoteSerializer_data_def
  UserSerializer_errors_def UserSerializer_save_def

section \<open>Looking notes up\<close>

lemma get_object_elevated:
  assumes "is_staff u \<or> is_superuser u" and "outage d = None"
  shows "get_object d (NoteDelete_get_queryset u) pk =
           (case find (\<lambda>n. note_id n = pk) (db_notes d) of
              None \<Rightarrow> Inl (Http404 ''No Note matches the given query.'')
            | Some n \<Rightarrow> Inr n)"
  using assms by (auto simp: get_object_def fetch_def NoteDelete_get_queryset_def)

lemma get_object_not_elevated:
  assumes "\<not> is_staff u" and "\<not> is_superuser u"
  shows "get_object d (NoteDelete_get_queryset u) pk =
           Inl (Http404 ''No Note matches the given query.'')"
  using assms by (simp add: get_object_def fetch_def NoteDelete_get_queryset_def)

lemma get_object_never_DoesNotExist: "get_object d q pk \<noteq> Inl (Note_DoesNotExist m)"
  by (auto simp: get_object_def fetch_def split: option.splits sum.splits)

lemma find_by_distinct_id:
  "distinct (map note_id ns) \<Longrightarrow> n \<in> set ns \<Longrightarrow> find (\<lambda>m. note_id m = note_id n) ns = Some n"
  by (induction ns) force+

lemma length_filter_distinct_id:
  "distinct (map note_id ns) \<Longrightarrow> n \<in> set ns \<Longrightarrow>
     Suc (length (filter (\<lambda>m. note_id m \<noteq> note_id n) ns)) = length ns"
proof (induction ns)
  case Nil
  then show ?case by simp
next
  case (Cons a ns)
  show ?case
  proof (cases "a = n")
    case True
    with Cons.prems have "\<forall>m\<in>set ns. note_id m \<noteq> note_id n"
      by (metis distinct.simps(2) image_eqI list.simps(9) set_map)
    then have "filter (\<lambda>m. note_id m \<noteq> note_id n) ns = ns" by simp
    with True show ?thesis by simp
  next
    case False
    with Cons.prems have "n \<in> set ns" "note_id a \<noteq> note_id n" "distinct (map note_id ns)"
      by force+
    with Cons.IH show ?thesis by simp
  qed
qed

section \<open>Deleting notes\<close>

text \<open>
  C1. A principal who is neither staff nor superuser gets status 403 with the message
  "Only administrators can delete notes." from \<^verbatim>\<open>NoteDelete.destroy\<close>, whatever the
  store holds and whatever key is asked for (the same answer for a key that exists and for
  one that does not, and also while the store is unreachable: it is never asked), and the
  store after the request is the store before it, so the number of notes is the same.
\<close>

theorem delete_forbidden_for_non_admin:
  assumes "\<not> is_staff u" and "\<not> is_superuser u"
  shows "NoteDelete_destroy d u pk =
           (\<lparr>http_status = 403, status = ''error'',
             message = ''Only administrators can delete notes.'',
             data = None, errors = None\<rparr>, d) \<and>
         length (db_notes (snd (NoteDelete_destroy d u pk))) = length (db_notes d)"
  using assms by (simp add: NoteDelete_destroy_def destroy_try_def except_Exception_def)

theorem delete_forbidden_for_non_admin_witness:
  "\<not> is_staff testuser \<and> \<not> is_superuser testuser \<and>
   fst (NoteDelete_destroy fixture testuser 1) = fst (NoteDelete_destroy fixture testuser 9999) \<and>
   http_status (fst (NoteDelete_destroy fixture testuser 1)) = 403 \<and>
   length (db_notes (snd (NoteDelete_destroy fixture testuser 1))) = 2"
proof -
  have h: "\<not> is_staff testuser" "\<not> is_superuser testuser"
    by (simp_all add: testuser_def)
  have two: "length (db_notes fixture) = 2" by (simp add: fixture_def)
  show ?thesis
    using h two delete_forbidden_for_non_admin [OF h, of fixture 1]
      delete_forbidden_for_non_admin [OF h, of fixture 9999]
    by simp
qed

text \<open>
  C2. The claim: an elevated principal who deletes a key that no note has gets status 404
  with the message "Note not found.", and the store is unchanged. The view does leave the
  store unchanged, but it answers 500: the lookup raises \<^verbatim>\<open>Http404\<close>, the inner
  handler catches \<^verbatim>\<open>Note.DoesNotExist\<close> only, and the outer handler turns the exception
  into the generic answer. On the fixture of the tests, for key 9999:
\<close>

theorem delete_missing_note_answers_500:
  "NoteDelete_destroy fixture admin_user 9999 =
     (\<lparr>http_status = 500, status = ''error'',
       message = ''No Note matches the given query.'',
       data = None, errors = None\<rparr>, fixture)"
  by (simp add: view_defs sample_defs)

text \<open>The 404 branch of \<^verbatim>\<open>destroy\<close> is dead code: no request is answered by it.\<close>

lemma destroy_never_404: "http_status (fst (NoteDelete_destroy d u pk)) \<noteq> 404"
proof (cases "get_object d (NoteDelete_get_queryset u) pk")
  case (Inl e)
  then have "\<exists>m. e = Http404 m \<or> e = OperationalError m"
    using get_object_never_DoesNotExist [of d "NoteDelete_get_queryset u" pk]
    by (cases e) auto
  with Inl show ?thesis
    by (auto simp: NoteDelete_destroy_def destroy_try_def except_Exception_def
        internal_server_error_def)
next
  case (Inr n)
  then show ?thesis
    by (auto simp: NoteDelete_destroy_def destroy_try_def except_Exception_def
        internal_server_error_def Let_def split: sum.splits)
qed

text \<open>
  C3. When the principal is elevated, the store answers, primary keys are unique and a note
  \<open>n\<close> is in the store, deleting its key is answered with status 200 and data that hold the
  key, the title and the author's username of \<open>n\<close> as they were before the deletion; the
  store afterwards has exactly one note less, none with that key, and looking the key up
  again finds nothing.
\<close>

theorem delete_existing_note:
  assumes adm: "is_staff u \<or> is_superuser u"
    and up: "outage d = None"
    and pk: "distinct (map note_id (db_notes d))"
    and n: "n \<in> set (db_notes d)"
  shows "\<exists>d'. NoteDelete_destroy d u (note_id n) =
           (\<lparr>http_status = 200, status = ''success'',
             message = deleted_message
               \<lparr>info_id = note_id n, info_title = title n,
                info_author = username (author n)\<rparr>,
             data = Some (Deleted_note
               \<lparr>info_id = note_id n, info_title = title n,
                info_author = username (author n)\<rparr>),
             errors = None\<rparr>, d') \<and>
           Suc (length (db_notes d')) = length (db_notes d) \<and>
           note_id n \<notin> set (map note_id (db_notes d')) \<and>
           (\<forall>v. \<exists>m. get_object d' (NoteDelete_get_queryset v) (note_id n) = Inl (Http404 m))"
proof -
  let ?d' = "d\<lparr>db_notes := filter (\<lambda>m. note_id m \<noteq> note_id n) (db_notes d)\<rparr>"
  let ?info = "\<lparr>info_id = note_id n, info_title = title n,
                info_author = username (author n)\<rparr>"
  have found: "get_object d (NoteDelete_get_queryset u) (note_id n) = Inr n"
    using get_object_elevated [OF adm up] find_by_distinct_id [OF pk n] by simp
  have del: "super_destroy d u (note_id n) = Inr ?d'"
    using found up by (simp add: super_destroy_def delete_instance_def)
  have res: "NoteDelete_destroy d u (note_id n) =
           (\<lparr>http_status = 200, status = ''success'', message = deleted_message ?info,
             data = Some (Deleted_note ?info), errors = None\<rparr>, ?d')"
    using adm found del
    by (simp add: NoteDelete_destroy_def destroy_try_def except_Exception_def Let_def)
  have cnt: "Suc (length (db_notes ?d')) = length (db_notes d)"
    using length_filter_distinct_id [OF pk n] by simp
  have gone: "note_id n \<notin> set (map note_id (db_notes ?d'))" by auto
  have unreachable:
    "\<exists>m. get_object ?d' (NoteDelete_get_queryset v) (note_id n) = Inl (Http404 m)" for v
  proof -
    have "find (\<lambda>m. note_id m = note_id n) (db_notes ?d') = None"
      by (simp add: find_None_iff)
    then show ?thesis
      using up by (simp add: get_object_def fetch_def NoteDelete_get_queryset_def)
  qed
  from res cnt gone unreachable show ?thesis by blast
qed

theorem delete_existing_note_witness:
  "(is_staff admin_user \<or> is_superuser admin_user) \<and> outage fixture = None \<and>
   distinct (map note_id (db_notes fixture)) \<and> note1 \<in> set (db_notes fixture) \<and>
   (\<exists>d'. NoteDelete_destroy fixture admin_user 1 =
      (\<lparr>http_status = 200, status = ''success'',
        message = deleted_message
          \<lparr>info_id = 1, info_title = ''Note 1'', info_author = ''testuser''\<rparr>,
        data = Some (Deleted_note
          \<lparr>info_id = 1, info_title = ''Note 1'', info_author = ''testuser''\<rparr>),
        errors = None\<rparr>, d') \<and>
      Suc (length (db_notes d')) = 2 \<and> 1 \<notin> set (map note_id (db_notes d')))"
proof -
  have h1: "is_staff admin_user \<or> is_superuser admin_user" by (simp add: admin_user_def)
  have h2: "outage fixture = None" by (simp add: fixture_def)
  have h3: "distinct (map note_id (db_notes fixture))"
    by (simp add: fixture_def note1_def note2_def)
  have h4: "note1 \<in> set (db_notes fixture)" by (simp add: fixture_def)
  have two: "length (db_notes fixture) = 2" by (simp add: fixture_def)
  have n1: "note_id note1 = 1" "title note1 = ''Note 1''"
    "username (author note1) = ''testuser''"
    by (simp_all add: note1_def testuser_def)
  from delete_existing_note [OF h1 h2 h3 h4] obtain d' where
    "NoteDelete_destroy fixture admin_user (note_id note1) =
           (\<lparr>http_status = 200, status = ''success'',
             message = deleted_message
               \<lparr>info_id = note_id note1, info_title = title note1,
                info_author = username (author note1)\<rparr>,
             data = Some (Deleted_note
               \<lparr>info_id = note_id note1, info_title = title note1,
                info_author = username (author note1)\<rparr>),
             errors = None\<rparr>, d')"
    "Suc (length (db_notes d')) = length (db_notes fixture)"
    "note_id note1 \<notin> set (map note_id (db_notes d'))"
    by blast
  with h1 h2 h3 h4 two n1 show ?thesis by auto
qed

text \<open>
  C10. The query set of the delete view holds every note for an elevated principal and no
  note for any other; for a principal who is not elevated the framework's lookup through
  that query set fails for every key and every store, without the check in
  \<^verbatim>\<open>destroy\<close> taking part.
\<close>

theorem delete_queryset_by_privilege:
  "rows d (NoteDelete_get_queryset u) =
     (if is_staff u \<or> is_superuser u then db_notes d else []) \<and>
   (\<not> is_staff u \<and> \<not> is_superuser u \<longrightarrow>
      fetch d (NoteDelete_get_queryset u) = Inr [] \<and>
      (\<forall>pk. \<exists>m. get_object d (NoteDelete_get_queryset u) pk = Inl (Http404 m)))"
  by (simp add: NoteDelete_get_queryset_def get_object_def fetch_def)

theorem delete_queryset_by_privilege_witness:
  "rows fixture (NoteDelete_get_queryset admin_user) = [note1, note2] \<and>
   rows fixture (NoteDelete_get_queryset staff_user) = [note1, note2] \<and>
   \<not> is_staff testuser \<and> \<not> is_superuser testuser \<and>
   rows fixture (NoteDelete_get_queryset testuser) = [] \<and>
   (\<exists>m. get_object fixture (NoteDelete_get_queryset testuser) 1 = Inl (Http404 m))"
  using delete_queryset_by_privilege [of fixture admin_user]
    delete_queryset_by_privilege [of fixture staff_user]
    delete_queryset_by_privilege [of fixture testuser]
  by (simp add: sample_defs)

section \<open>Creating and listing notes\<close>

text \<open>
  C4. A create request whose title is empty stores nothing: the store after the request is
  the store before it, and the answer has status 400, \<^verbatim>\<open>status\<close> "error" and an error
  map with an entry for the field "title". This holds for every principal, content, clock
  reading and store.
\<close>

theorem create_empty_title_rejected:
  assumes "payload_title p = []"
  shows "\<exists>errs. NoteListCreate_create d u p now =
           (\<lparr>http_status = 400, status = ''error'', message = ''Invalid data provided.'',
             data = None, errors = Some errs\<rparr>, d) \<and>
         ''title'' \<in> set (map fst errs)"
  using assms
  by (simp add: NoteListCreate_create_def create_try_def except_Exception_def
      NoteSerializer_is_valid_def NoteSerializer_errors_def)

theorem create_empty_title_rejected_witness:
  "payload_title untitled_note = [] \<and>
   NoteListCreate_create fixture testuser untitled_note 30 =
     (\<lparr>http_status = 400, status = ''error'', message = ''Invalid data provided.'',
       data = None, errors = Some [(''title'', [''This field may not be blank.''])]\<rparr>,
      fixture)"
proof -
  have h: "payload_title untitled_note = []" by (simp add: untitled_note_def)
  have e: "NoteSerializer_errors untitled_note = [(''title'', [''This field may not be blank.''])]"
    by (simp add: NoteSerializer_errors_def untitled_note_def)
  from create_empty_title_rejected [OF h, of fixture testuser 30] obtain errs where
    r: "NoteListCreate_create fixture testuser untitled_note 30 =
           (\<lparr>http_status = 400, status = ''error'', message = ''Invalid data provided.'',
             data = None, errors = Some errs\<rparr>, fixture)"
    by blast
  have "errs = NoteSerializer_errors untitled_note"
    using r h
    by (simp add: NoteListCreate_create_def create_try_def except_Exception_def
        NoteSerializer_is_valid_def NoteSerializer_errors_def)
  with r e h show ?thesis by simp
qed

lemma rows_ordered_newest_first:
  "sorted_wrt (\<lambda>a b. created_at b \<le> created_at a)
     (rows d (order_by_created_at_desc Note_objects_all))"
proof -
  have "sorted (map (\<lambda>n. - created_at n) (sort_key (\<lambda>n. - created_at n) (db_notes d)))"
    by (rule sorted_sort_key)
  then show ?thesis by (simp add: sorted_map)
qed

lemma rows_ordered_same_notes:
  "mset (rows d (order_by_created_at_desc Note_objects_all)) = mset (db_notes d)"
  by simp

lemma list_answer:
  assumes "outage d = None"
  shows "\<exists>items. NoteListCreate_list d u =
           \<lparr>http_status = 200, status = ''success'',
            message = ''Notes retrieved successfully.'',
            data = Some (Notes items), errors = None\<rparr> \<and>
         mset items = mset (map NoteSerializer_data (db_notes d)) \<and>
         sorted_wrt (\<lambda>a b. json_created_at b \<le> json_created_at a) items"
proof -
  let ?ns = "rows d (order_by_created_at_desc Note_objects_all)"
  have res: "NoteListCreate_list d u =
           \<lparr>http_status = 200, status = ''success'',
            message = ''Notes retrieved successfully.'',
            data = Some (Notes (map NoteSerializer_data ?ns)), errors = None\<rparr>"
    using assms
    by (simp add: NoteListCreate_list_def list_try_def NoteListCreate_get_queryset_def
        except_Exception_def fetch_def)
  have "mset (map NoteSerializer_data ?ns) = image_mset NoteSerializer_data (mset ?ns)"
    by (rule mset_map)
  then have all: "mset (map NoteSerializer_data ?ns) = mset (map NoteSerializer_data (db_notes d))"
    using rows_ordered_same_notes [of d] by simp
  have ord: "sorted_wrt (\<lambda>a b. json_created_at b \<le> json_created_at a)
               (map NoteSerializer_data ?ns)"
    using rows_ordered_newest_first [of d]
    by (simp add: sorted_wrt_map NoteSerializer_data_def)
  from res all ord show ?thesis by blast
qed

text \<open>
  C5. While the store answers, listing is answered with status 200 and a list that holds
  the serialized form of every note of the store, each as often as it is stored and none
  besides (whoever the author is), in an order in which \<^verbatim>\<open>created_at\<close> never increases
  from one item to the next.
\<close>

theorem list_every_note_newest_first:
  assumes "outage d = None"
  shows "\<exists>items. NoteListCreate_list d u =
           \<lparr>http_status = 200, status = ''success'',
            message = ''Notes retrieved successfully.'',
            data = Some (Notes items), errors = None\<rparr> \<and>
         mset items = mset (map NoteSerializer_data (db_notes d)) \<and>
         sorted_wrt (\<lambda>a b. json_created_at b \<le> json_created_at a) items"
  using assms by (rule list_answer)

theorem list_every_note_newest_first_witness:
  "outage fixture = None \<and>
   NoteListCreate_list fixture testuser =
     \<lparr>http_status = 200, status = ''success'', message = ''Notes retrieved successfully.'',
      data = Some (Notes [NoteSerializer_data note2, NoteSerializer_data note1]),
      errors = None\<rparr> \<and>
   (\<exists>items. data (NoteListCreate_list fixture testuser) = Some (Notes items) \<and>
      mset items = mset (map NoteSerializer_data (db_notes fixture)) \<and>
      sorted_wrt (\<lambda>a b. json_created_at b \<le> json_created_at a) items)"
proof -
  have h: "outage fixture = None" by (simp add: fixture_def)
  have v: "NoteListCreate_list fixture testuser =
     \<lparr>http_status = 200, status = ''success'', message = ''Notes retrieved successfully.'',
      data = Some (Notes [NoteSerializer_data note2, NoteSerializer_data note1]),
      errors = None\<rparr>"
    by (simp add: NoteListCreate_list_def list_try_def NoteListCreate_get_queryset_def
        except_Exception_def fetch_def fixture_def note1_def note2_def)
  from list_every_note_newest_first [OF h, of testuser] obtain items where
    "NoteListCreate_list fixture testuser =
           \<lparr>http_status = 200, status = ''success'',
            message = ''Notes retrieved successfully.'',
            data = Some (Notes items), errors = None\<rparr>"
    "mset items = mset (map NoteSerializer_data (db_notes fixture))"
    "sorted_wrt (\<lambda>a b. json_created_at b \<le> json_created_at a) items"
    by blast
  then have "\<exists>items. data (NoteListCreate_list fixture testuser) = Some (Notes items) \<and>
      mset items = mset (map NoteSerializer_data (db_notes fixture)) \<and>
      sorted_wrt (\<lambda>a b. json_created_at b \<le> json_created_at a) items"
    by auto
  with h v show ?thesis by blast
qed

section \<open>The current user\<close>

text \<open>
  C6. The current-user view answers with status 200 and data that hold the key, the
  username and the two flags of the principal, and \<^verbatim>\<open>is_admin\<close> equal to the disjunction
  of the two flags; so a principal who is staff and not superuser is reported as an
  administrator.
\<close>

theorem current_user_is_admin:
  "\<exists>ud. CurrentUserView_get u =
          \<lparr>http_status = 200, status = ''success'',
           message = ''User information retrieved successfully.'',
           data = Some (Current_user ud), errors = None\<rparr> \<and>
        data_id ud = user_id u \<and> data_username ud = username u \<and>
        data_is_staff ud = is_staff u \<and> data_is_superuser ud = is_superuser u \<and>
        is_admin ud = (is_staff u \<or> is_superuser u) \<and>
        (is_staff u \<and> \<not> is_superuser u \<longrightarrow> is_admin ud)"
  by (simp add: CurrentUserView_get_def get_try_def except_Exception_def Let_def)

theorem current_user_is_admin_witness:
  "is_staff staff_user \<and> \<not> is_superuser staff_user \<and>
   (\<exists>ud. data (CurrentUserView_get staff_user) = Some (Current_user ud) \<and> is_admin ud \<and>
      data_is_staff ud \<and> \<not> data_is_superuser ud)"
proof -
  have h: "is_staff staff_user" "\<not> is_superuser staff_user" by (simp_all add: staff_user_def)
  from current_user_is_admin [of staff_user] obtain ud where
    "CurrentUserView_get staff_user =
          \<lparr>http_status = 200, status = ''success'',
           message = ''User information retrieved successfully.'',
           data = Some (Current_user ud), errors = None\<rparr>"
    "data_is_staff ud = is_staff staff_user" "data_is_superuser ud = is_superuser staff_user"
    "is_staff staff_user \<and> \<not> is_superuser staff_user \<longrightarrow> is_admin ud"
    by blast
  with h show ?thesis by auto
qed

section \<open>What a request does to the note table\<close>

lemma create_valid:
  assumes "outage d = None" and "NoteSerializer_is_valid p"
  shows "NoteListCreate_create d u p now =
           (\<lparr>http_status = 201, status = ''success'', message = ''Note created successfully.'',
             data = Some (Created_note (NoteSerializer_data
               \<lparr>note_id = next_note_id d, title = payload_title p,
                content = payload_content p, author = u, created_at = now\<rparr>)),
             errors = None\<rparr>,
            d\<lparr>db_notes := db_notes d @
                 [\<lparr>note_id = next_note_id d, title = payload_title p,
                   content = payload_content p, author = u, created_at = now\<rparr>],
              next_note_id := Suc (next_note_id d)\<rparr>)"
  using assms
  by (simp add: NoteListCreate_create_def create_try_def except_Exception_def
      NoteSerializer_save_def Let_def)

lemma create_notes:
  "db_notes (snd (NoteListCreate_create d u p now)) = db_notes d \<or>
   (\<exists>n. db_notes (snd (NoteListCreate_create d u p now)) = db_notes d @ [n] \<and>
      author n = u \<and> note_id n = next_note_id d \<and>
      next_note_id (snd (NoteListCreate_create d u p now)) = Suc (next_note_id d))"
  by (cases "outage d")
    (simp_all add: NoteListCreate_create_def create_try_def except_Exception_def
      NoteSerializer_save_def Let_def)

lemma create_rest:
  "db_users (snd (NoteListCreate_create d u p now)) = db_users d \<and>
   next_user_id (snd (NoteListCreate_create d u p now)) = next_user_id d \<and>
   next_note_id d \<le> next_note_id (snd (NoteListCreate_create d u p now))"
  by (cases "outage d")
    (simp_all add: NoteListCreate_create_def create_try_def except_Exception_def
      NoteSerializer_save_def Let_def)

lemma destroy_notes:
  "db_notes (snd (NoteDelete_destroy d u pk)) = db_notes d \<or>
   db_notes (snd (NoteDelete_destroy d u pk)) =
     filter (\<lambda>n. note_id n \<noteq> pk) (db_notes d)"
proof (cases "get_object d (NoteDelete_get_queryset u) pk")
  case (Inl e)
  then show ?thesis
    by (cases e)
      (simp_all add: NoteDelete_destroy_def destroy_try_def except_Exception_def)
next
  case (Inr n)
  then have "note_id n = pk"
    by (auto simp: get_object_def split: sum.splits option.splits dest: find_Some_iff [THEN iffD1])
  with Inr show ?thesis
    by (cases "outage d")
      (simp_all add: NoteDelete_destroy_def destroy_try_def except_Exception_def
        super_destroy_def delete_instance_def Let_def)
qed

lemma destroy_rest:
  "db_users (snd (NoteDelete_destroy d u pk)) = db_users d \<and>
   next_user_id (snd (NoteDelete_destroy d u pk)) = next_user_id d \<and>
   next_note_id (snd (NoteDelete_destroy d u pk)) = next_note_id d"
proof (cases "get_object d (NoteDelete_get_queryset u) pk")
  case (Inl e)
  then show ?thesis
    by (cases e)
      (simp_all add: NoteDelete_destroy_def destroy_try_def except_Exception_def)
next
  case (Inr n)
  then show ?thesis
    by (cases "outage d")
      (simp_all add: NoteDelete_destroy_def destroy_try_def except_Exception_def
        super_destroy_def delete_instance_def Let_def)
qed

lemma register_notes:
  "db_notes (snd (CreateUserView_create d r)) = db_notes d \<and>
   next_note_id (snd (CreateUserView_create d r)) = next_note_id d"
  by (cases "outage d")
    (simp_all add: CreateUserView_create_def register_try_def except_Exception_def
      UserSerializer_errors_def UserSerializer_save_def Let_def)

lemma register_users:
  "db_users (snd (CreateUserView_create d r)) = db_users d \<and>
     next_user_id (snd (CreateUserView_create d r)) = next_user_id d \<or>
   (\<exists>u. db_users (snd (CreateUserView_create d r)) = db_users d @ [u] \<and>
      user_id u = next_user_id d \<and>
      next_user_id (snd (CreateUserView_create d r)) = Suc (next_user_id d))"
  by (cases "outage d")
    (simp_all add: CreateUserView_create_def register_try_def except_Exception_def
      UserSerializer_errors_def UserSerializer_save_def Let_def)

lemma dispatch_keeps_authors:
  assumes "m \<in> set (db_notes (snd (dispatch d req)))"
  shows "m \<in> set (db_notes d) \<or> (\<exists>u p now. req = POST_notes u p now \<and> author m = u)"
proof (cases req)
  case (GET_notes u)
  with assms show ?thesis by simp
next
  case (POST_notes u p now)
  with assms create_notes [of d u p now] show ?thesis by auto
next
  case (DELETE_note u pk)
  with assms destroy_notes [of d u pk] show ?thesis by auto
next
  case (POST_register r)
  with assms register_notes [of d r] show ?thesis by simp
next
  case (GET_me u)
  with assms show ?thesis by simp
qed

text \<open>
  Unique primary keys drawn from the sequences hold in the empty store and after every
  request, so they hold in every store the views can reach.
\<close>

lemma wf_empty_db: "wf_db empty_db"
  by (simp add: wf_db_def empty_db_def)

lemma wf_append_fresh:
  assumes "distinct (map k xs)" and "list_all (\<lambda>x. k x < (c::nat)) xs" and "k y = c"
  shows "distinct (map k (xs @ [y])) \<and> list_all (\<lambda>x. k x < Suc c) (xs @ [y])"
  using assms by (auto simp: list_all_iff less_Suc_eq)

lemma dispatch_keeps_wf:
  assumes wf: "wf_db d"
  shows "wf_db (snd (dispatch d req))"
proof (cases req)
  case (GET_notes u)
  with wf show ?thesis by simp
next
  case (POST_notes u p now)
  from create_notes [of d u p now] create_rest [of d u p now] wf
  have "wf_db (snd (NoteListCreate_create d u p now))"
    unfolding wf_db_def
    using wf_append_fresh [of note_id "db_notes d" "next_note_id d"]
    by (elim disjE exE conjE) (auto simp: list_all_iff)
  with POST_notes show ?thesis by simp
next
  case (DELETE_note u pk)
  from destroy_notes [of d u pk] destroy_rest [of d u pk] wf
  have "wf_db (snd (NoteDelete_destroy d u pk))"
    unfolding wf_db_def
    by (elim disjE conjE) (auto simp: list_all_iff distinct_map_filter)
  with DELETE_note show ?thesis by simp
next
  case (POST_register r)
  from register_users [of d r] register_notes [of d r] wf
  have "wf_db (snd (CreateUserView_create d r))"
    unfolding wf_db_def
    using wf_append_fresh [of user_id "db_users d" "next_user_id d"]
    by (elim disjE exE conjE) (auto simp: list_all_iff)
  with POST_register show ?thesis by simp
next
  case (GET_me u)
  with wf show ?thesis by simp
qed

lemma wf_db_distinct_ids: "wf_db d \<Longrightarrow> distinct (map note_id (db_notes d))"
  by (simp add: wf_db_def)

text \<open>
  C7. While the store answers, a create request with a valid payload is answered with
  status 201 and the serialized new note, whose \<^verbatim>\<open>author_username\<close> and
  \<^verbatim>\<open>author_id\<close> are the username and the key of the requesting principal; listing the
  notes right afterwards, as any principal, returns that same item. Further, for every
  request to any of the five routes, a note of the store after the request is either a
  note of the store before it, unchanged, or the note the request created, whose author is
  the requesting principal: no route assigns another author to a note.
\<close>

theorem create_then_list_roundtrip:
  "(outage d = None \<and> NoteSerializer_is_valid p \<longrightarrow>
      (\<exists>item d'. NoteListCreate_create d u p now =
           (\<lparr>http_status = 201, status = ''success'', message = ''Note created successfully.'',
             data = Some (Created_note item), errors = None\<rparr>, d') \<and>
         json_id item = next_note_id d \<and> json_title item = payload_title p \<and>
         author_username item = username u \<and> author_id item = user_id u \<and>
         (\<forall>v. \<exists>items. NoteListCreate_list d' v =
              \<lparr>http_status = 200, status = ''success'',
               message = ''Notes retrieved successfully.'',
               data = Some (Notes items), errors = None\<rparr> \<and>
            item \<in> set items))) \<and>
   (\<forall>req. \<forall>m \<in> set (db_notes (snd (dispatch d req))).
      m \<in> set (db_notes d) \<or> (\<exists>u' p' now'. req = POST_notes u' p' now' \<and> author m = u'))"
proof (intro conjI impI allI ballI)
  assume a: "outage d = None \<and> NoteSerializer_is_valid p"
  let ?n = "\<lparr>note_id = next_note_id d, title = payload_title p,
              content = payload_content p, author = u, created_at = now\<rparr>"
  let ?d' = "d\<lparr>db_notes := db_notes d @ [?n], next_note_id := Suc (next_note_id d)\<rparr>"
  have created: "NoteListCreate_create d u p now =
           (\<lparr>http_status = 201, status = ''success'', message = ''Note created successfully.'',
             data = Some (Created_note (NoteSerializer_data ?n)), errors = None\<rparr>, ?d')"
    using a create_valid [of d p u now] by simp
  have fields: "json_id (NoteSerializer_data ?n) = next_note_id d"
    "json_title (NoteSerializer_data ?n) = payload_title p"
    "author_username (NoteSerializer_data ?n) = username u"
    "author_id (NoteSerializer_data ?n) = user_id u"
    by (simp_all add: NoteSerializer_data_def)
  have listed: "\<exists>items. NoteListCreate_list ?d' v =
              \<lparr>http_status = 200, status = ''success'',
               message = ''Notes retrieved successfully.'',
               data = Some (Notes items), errors = None\<rparr> \<and>
            NoteSerializer_data ?n \<in> set items" for v
  proof -
    have up: "outage ?d' = None" using a by simp
    from list_answer [OF up, of v] obtain items where
      l: "NoteListCreate_list ?d' v =
              \<lparr>http_status = 200, status = ''success'',
               message = ''Notes retrieved successfully.'',
               data = Some (Notes items), errors = None\<rparr>"
      and m: "mset items = mset (map NoteSerializer_data (db_notes ?d'))"
      by blast
    from m have "set items = set (map NoteSerializer_data (db_notes ?d'))"
      by (rule mset_eq_setD)
    then have "NoteSerializer_data ?n \<in> set items" by simp
    with l show ?thesis by blast
  qed
  from created fields listed
  show "\<exists>item d'. NoteListCreate_create d u p now =
           (\<lparr>http_status = 201, status = ''success'', message = ''Note created successfully.'',
             data = Some (Created_note item), errors = None\<rparr>, d') \<and>
         json_id item = next_note_id d \<and> json_title item = payload_title p \<and>
         author_username item = username u \<and> author_id item = user_id u \<and>
         (\<forall>v. \<exists>items. NoteListCreate_list d' v =
              \<lparr>http_status = 200, status = ''success'',
               message = ''Notes retrieved successfully.'',
               data = Some (Notes items), errors = None\<rparr> \<and>
            item \<in> set items)"
    by blast
next
  fix req m
  assume "m \<in> set (db_notes (snd (dispatch d req)))"
  then show "m \<in> set (db_notes d) \<or>
      (\<exists>u' p' now'. req = POST_notes u' p' now' \<and> author m = u')"
    by (rule dispatch_keeps_authors)
qed

theorem create_then_list_roundtrip_witness:
  "outage fixture = None \<and> NoteSerializer_is_valid new_note \<and>
   (\<exists>item d'. fst (NoteListCreate_create fixture testuser new_note 30) =
        \<lparr>http_status = 201, status = ''success'', message = ''Note created successfully.'',
         data = Some (Created_note item), errors = None\<rparr> \<and>
      snd (NoteListCreate_create fixture testuser new_note 30) = d' \<and>
      json_id item = 3 \<and> author_username item = ''testuser'' \<and> author_id item = 1 \<and>
      (\<exists>items. data (NoteListCreate_list d' admin_user) = Some (Notes items) \<and>
         item \<in> set items)) \<and>
   map author (db_notes (snd (dispatch fixture (POST_notes testuser new_note 30)))) =
     [testuser, admin_user, testuser]"
proof -
  have h: "outage fixture = None \<and> NoteSerializer_is_valid new_note"
    by (simp add: fixture_def new_note_def NoteSerializer_is_valid_def
        NoteSerializer_errors_def)
  have v: "next_note_id fixture = 3" "username testuser = ''testuser''" "user_id testuser = 1"
    by (simp_all add: fixture_def testuser_def)
  note t = create_then_list_roundtrip [of fixture new_note testuser 30]
  from t h obtain item d' where
    c: "NoteListCreate_create fixture testuser new_note 30 =
           (\<lparr>http_status = 201, status = ''success'', message = ''Note created successfully.'',
             data = Some (Created_note item), errors = None\<rparr>, d')"
    and f: "json_id item = next_note_id fixture" "author_username item = username testuser"
      "author_id item = user_id testuser"
    and l: "\<forall>v. \<exists>items. NoteListCreate_list d' v =
              \<lparr>http_status = 200, status = ''success'',
               message = ''Notes retrieved successfully.'',
               data = Some (Notes items), errors = None\<rparr> \<and>
            item \<in> set items"
    by blast
  from l obtain items where
    "NoteListCreate_list d' admin_user =
              \<lparr>http_status = 200, status = ''success'',
               message = ''Notes retrieved successfully.'',
               data = Some (Notes items), errors = None\<rparr>" "item \<in> set items"
    by blast
  then have li: "\<exists>items. data (NoteListCreate_list d' admin_user) = Some (Notes items) \<and>
         item \<in> set items"
    by auto
  have first: "\<exists>item d'. fst (NoteListCreate_create fixture testuser new_note 30) =
        \<lparr>http_status = 201, status = ''success'', message = ''Note created successfully.'',
         data = Some (Created_note item), errors = None\<rparr> \<and>
      snd (NoteListCreate_create fixture testuser new_note 30) = d' \<and>
      json_id item = 3 \<and> author_username item = ''testuser'' \<and> author_id item = 1 \<and>
      (\<exists>items. data (NoteListCreate_list d' admin_user) = Some (Notes items) \<and>
         item \<in> set items)"
    using c f v li by auto
  have second:
    "map author (db_notes (snd (dispatch fixture (POST_notes testuser new_note 30)))) =
       [testuser, admin_user, testuser]"
    by (simp add: create_valid [OF h [THEN conjunct1] h [THEN conjunct2]])
      (simp add: fixture_def note1_def note2_def)
  from h first second show ?thesis by blast
qed

section \<open>Failures and the shape of every answer\<close>

text \<open>
  The \<^verbatim>\<open>try\<close> block of the current-user view reads the principal only; no step of it
  can raise, so its \<^verbatim>\<open>except\<close> clause is never entered.
\<close>

lemma get_try_never_raises: "get_try u \<noteq> Inl e"
  by (simp add: get_try_def Let_def)

text \<open>
  C8. In each view whose \<^verbatim>\<open>try\<close> block can raise (list, create, delete, register),
  when the block raises an exception \<open>e\<close> that no inner handler has caught, the view
  returns an answer instead of raising: status 500, \<^verbatim>\<open>status\<close> "error", the text of
  \<open>e\<close> as message, neither data nor an error map (so nothing but the text of the exception
  is exposed), and the store as the request found it.
\<close>

theorem exception_answered_with_500:
  "(list_try d u = Inl e \<longrightarrow>
      NoteListCreate_list d u =
        \<lparr>http_status = 500, status = ''error'', message = str e, data = None,
         errors = None\<rparr>) \<and>
   (create_try d u p now = Inl e \<longrightarrow>
      NoteListCreate_create d u p now =
        (\<lparr>http_status = 500, status = ''error'', message = str e, data = None,
          errors = None\<rparr>, d)) \<and>
   (destroy_try d u pk = Inl e \<longrightarrow>
      NoteDelete_destroy d u pk =
        (\<lparr>http_status = 500, status = ''error'', message = str e, data = None,
          errors = None\<rparr>, d)) \<and>
   (register_try d r = Inl e \<longrightarrow>
      CreateUserView_create d r =
        (\<lparr>http_status = 500, status = ''error'', message = str e, data = None,
          errors = None\<rparr>, d))"
  by (simp add: NoteListCreate_list_def NoteListCreate_create_def NoteDelete_destroy_def
      CreateUserView_create_def except_Exception_def internal_server_error_def)

theorem exception_answered_with_500_witness:
  "list_try fixture_down testuser = Inl (OperationalError ''connection refused'') \<and>
   message (NoteListCreate_list fixture_down testuser) = ''connection refused'' \<and>
   http_status (NoteListCreate_list fixture_down testuser) = 500 \<and>
   create_try fixture_down testuser new_note 30 = Inl (OperationalError ''connection refused'') \<and>
   http_status (fst (NoteListCreate_create fixture_down testuser new_note 30)) = 500 \<and>
   snd (NoteListCreate_create fixture_down testuser new_note 30) = fixture_down \<and>
   destroy_try fixture admin_user 9999 = Inl (Http404 ''No Note matches the given query.'') \<and>
   http_status (fst (NoteDelete_destroy fixture admin_user 9999)) = 500 \<and>
   destroy_try fixture_down admin_user 1 = Inl (OperationalError ''connection refused'') \<and>
   NoteDelete_destroy fixture_down admin_user 1 =
     (\<lparr>http_status = 500, status = ''error'', message = ''connection refused'', data = None,
       errors = None\<rparr>, fixture_down) \<and>
   register_try fixture_down newuser = Inl (OperationalError ''connection refused'') \<and>
   http_status (fst (CreateUserView_create fixture_down newuser)) = 500"
proof -
  let ?e = "OperationalError ''connection refused''"
  let ?nf = "Http404 ''No Note matches the given query.''"
  have l: "list_try fixture_down testuser = Inl ?e"
    by (simp add: list_try_def NoteListCreate_get_queryset_def fetch_def fixture_down_def
        fixture_def)
  have c: "create_try fixture_down testuser new_note 30 = Inl ?e"
    by (simp add: create_try_def NoteSerializer_is_valid_def NoteSerializer_errors_def
        NoteSerializer_save_def new_note_def fixture_down_def fixture_def)
  have m: "destroy_try fixture admin_user 9999 = Inl ?nf"
    by (simp add: destroy_try_def get_object_def fetch_def NoteDelete_get_queryset_def
        sample_defs)
  have x: "destroy_try fixture_down admin_user 1 = Inl ?e"
    by (simp add: destroy_try_def get_object_def fetch_def NoteDelete_get_queryset_def
        sample_defs)
  have r: "register_try fixture_down newuser = Inl ?e"
    by (simp add: register_try_def UserSerializer_errors_def newuser_def fixture_down_def
        fixture_def)
  from l c m x r show ?thesis
    using exception_answered_with_500 [of fixture_down testuser ?e new_note 30 1 newuser]
      exception_answered_with_500 [of fixture_down admin_user ?e new_note 30 1 newuser]
      exception_answered_with_500 [of fixture admin_user ?nf new_note 30 9999 newuser]
    by simp
qed

lemma envelope_ok_500: "envelope_ok (internal_server_error e)"
  by (simp add: envelope_ok_def internal_server_error_def)

lemma list_envelope: "envelope_ok (NoteListCreate_list d u)"
  by (cases "outage d")
    (simp_all add: NoteListCreate_list_def list_try_def NoteListCreate_get_queryset_def
      fetch_def except_Exception_def envelope_ok_500, simp add: envelope_ok_def)

lemma create_envelope: "envelope_ok (fst (NoteListCreate_create d u p now))"
  by (cases "outage d")
    (simp_all add: NoteListCreate_create_def create_try_def NoteSerializer_save_def
      except_Exception_def envelope_ok_500 Let_def, simp_all add: envelope_ok_def)

lemma destroy_envelope: "envelope_ok (fst (NoteDelete_destroy d u pk))"
proof (cases "get_object d (NoteDelete_get_queryset u) pk")
  case (Inl e)
  then show ?thesis
    by (cases e)
      (simp_all add: NoteDelete_destroy_def destroy_try_def except_Exception_def
        envelope_ok_500, simp_all add: envelope_ok_def)
next
  case (Inr n)
  then show ?thesis
    by (cases "outage d")
      (simp_all add: NoteDelete_destroy_def destroy_try_def except_Exception_def
        super_destroy_def delete_instance_def envelope_ok_500 Let_def,
        simp_all add: envelope_ok_def)
qed

lemma register_envelope: "envelope_ok (fst (CreateUserView_create d r))"
  by (cases "outage d")
    (simp_all add: CreateUserView_create_def register_try_def UserSerializer_errors_def
      UserSerializer_save_def except_Exception_def envelope_ok_500 Let_def,
      simp_all add: envelope_ok_def)

lemma current_user_envelope: "envelope_ok (CurrentUserView_get u)"
  by (simp add: CurrentUserView_get_def get_try_def except_Exception_def Let_def
      envelope_ok_def)

text \<open>
  C9. Every answer of the five views, for every principal, payload, key and store, has
  \<^verbatim>\<open>status\<close> "success" or "error" and a message; it carries data only when the status
  is "success", an error map only when the status is "error" and the HTTP status is 400
  (a validation failure), and never both.
\<close>

theorem every_answer_is_an_envelope:
  "envelope_ok (NoteListCreate_list d u) \<and>
   envelope_ok (fst (NoteListCreate_create d u p now)) \<and>
   envelope_ok (fst (NoteDelete_destroy d u pk)) \<and>
   envelope_ok (CurrentUserView_get u) \<and>
   envelope_ok (fst (CreateUserView_create d r))"
  using list_envelope create_envelope destroy_envelope current_user_envelope
    register_envelope
  by blast

theorem every_answer_is_an_envelope_witness:
  "data (fst (NoteListCreate_create fixture testuser new_note 30)) \<noteq> None \<and>
   status (fst (NoteListCreate_create fixture testuser new_note 30)) = ''success'' \<and>
   errors (fst (NoteListCreate_create fixture testuser untitled_note 30)) \<noteq> None \<and>
   status (fst (NoteListCreate_create fixture testuser untitled_note 30)) = ''error'' \<and>
   http_status (fst (NoteListCreate_create fixture testuser untitled_note 30)) = 400 \<and>
   data (fst (NoteListCreate_create fixture testuser untitled_note 30)) = None"
proof -
  have a: "data (fst (NoteListCreate_create fixture testuser new_note 30)) \<noteq> None"
    by (simp add: NoteListCreate_create_def create_try_def NoteSerializer_save_def
        NoteSerializer_is_valid_def NoteSerializer_errors_def except_Exception_def Let_def
        new_note_def fixture_def)
  have b: "errors (fst (NoteListCreate_create fixture testuser untitled_note 30)) \<noteq> None"
    by (simp add: NoteListCreate_create_def create_try_def NoteSerializer_is_valid_def
        NoteSerializer_errors_def except_Exception_def untitled_note_def)
  from a b show ?thesis
    using every_answer_is_an_envelope [of fixture testuser new_note 30 1 newuser]
      every_answer_is_an_envelope [of fixture testuser untitled_note 30 1 newuser]
    by (auto simp: envelope_ok_def)
qed

end
